theory Spec2Isabelle
  imports Main
begin

section \<open>Paths (pathlib.PurePosixPath)\<close>

text \<open>
  The builder works on \<^verbatim>\<open>pathlib.Path\<close> values of a POSIX system. A path is held the way
  pathlib holds it after parsing: a root (\<open>''''\<close>, \<open>''/''\<close> or \<open>''//''\<close>) and the list of
  its components. A character stands for one code point of the Python string.
\<close>

datatype path = Path (path_root: string) (path_parts: "string list")

text \<open>\<^verbatim>\<open>str.split(sep)\<close> for a one-character separator.\<close>

fun split :: "char \<Rightarrow> string \<Rightarrow> string list" where
  "split sep [] = [[]]"
| "split sep (c # cs) =
     (if c = sep then [] # split sep cs
      else (case split sep cs of [] \<Rightarrow> [[c]] | x # xs \<Rightarrow> (c # x) # xs))"

text \<open>\<^verbatim>\<open>sep.join(xs)\<close>.\<close>

fun join :: "string \<Rightarrow> string list \<Rightarrow> string" where
  "join sep [] = []"
| "join sep [x] = x"
| "join sep (x # y # ys) = x @ sep @ join sep (y # ys)"

text \<open>
  \<^verbatim>\<open>_PosixFlavour.splitroot\<close>: exactly two leading slashes are kept as the root
  \<open>''//''\<close>, any other number of them is the root \<open>''/''\<close>.
\<close>

definition splitroot :: "string \<Rightarrow> string \<times> string" where
  "splitroot part =
     (case part of
        [] \<Rightarrow> ([], part)
      | c # _ \<Rightarrow>
          if c = CHR ''/'' then
            (let stripped_part = dropWhile (\<lambda>x. x = CHR ''/'') part
             in if length part - length stripped_part = 2 then (''//'', stripped_part)
                else (''/'', stripped_part))
          else ([], part))"

text \<open>\<^verbatim>\<open>Path(s)\<close> for one string: empty components and \<open>''.''\<close> are dropped.\<close>

definition parse_parts :: "string \<Rightarrow> path" where
  "parse_parts s =
     (case splitroot s of
        (r, rel) \<Rightarrow> Path r (filter (\<lambda>x. x \<noteq> [] \<and> x \<noteq> ''.'') (split (CHR ''/'') rel)))"

text \<open>\<^verbatim>\<open>self / key\<close>: a key with a root replaces the path, any other key is appended.\<close>

definition truediv :: "path \<Rightarrow> string \<Rightarrow> path" where
  "truediv p key =
     (let k = parse_parts key
      in if path_root k \<noteq> [] then k
         else Path (path_root p) (path_parts p @ path_parts k))"

text \<open>\<^verbatim>\<open>self._make_child_relpath(name)\<close>, the child that a directory listing yields.\<close>

definition make_child_relpath :: "path \<Rightarrow> string \<Rightarrow> path" where
  "make_child_relpath p nm = Path (path_root p) (path_parts p @ [nm])"

definition name :: "path \<Rightarrow> string" where
  "name p = (case path_parts p of [] \<Rightarrow> [] | _ \<Rightarrow> last (path_parts p))"

text \<open>\<^verbatim>\<open>str.rfind(c)\<close>: the highest index of \<open>c\<close>; Python's \<open>-1\<close> is \<open>None\<close>.\<close>

definition rfind :: "string \<Rightarrow> char \<Rightarrow> nat option" where
  "rfind s c =
     (if c \<in> set s then Some (length s - 1 - length (takeWhile (\<lambda>x. x \<noteq> c) (rev s)))
      else None)"

text \<open>
  \<^verbatim>\<open>suffix\<close> and \<^verbatim>\<open>stem\<close>: the last dot splits the name, unless it is the first or
  the last character of the name (\<^verbatim>\<open>0 < i < len(name) - 1\<close>).
\<close>

definition suffix :: "path \<Rightarrow> string" where
  "suffix p =
     (case rfind (name p) (CHR ''.'') of
        None \<Rightarrow> []
      | Some i \<Rightarrow> if 0 < i \<and> i + 1 < length (name p) then drop i (name p) else [])"

definition stem :: "path \<Rightarrow> string" where
  "stem p =
     (case rfind (name p) (CHR ''.'') of
        None \<Rightarrow> name p
      | Some i \<Rightarrow> if 0 < i \<and> i + 1 < length (name p) then take i (name p) else name p)"

definition parent :: "path \<Rightarrow> path" where
  "parent p = (case path_parts p of [] \<Rightarrow> p | _ \<Rightarrow> Path (path_root p) (butlast (path_parts p)))"

definition str :: "path \<Rightarrow> string" where
  "str p =
     (if path_root p = [] \<and> path_parts p = [] then ''.''
      else path_root p @ join ''/'' (path_parts p))"

section \<open>Errors\<close>

text \<open>
  The exceptions that leave the builder. \<open>PermissionError\<close> is the \<^verbatim>\<open>OSError\<close> of that
  name, \<open>OSError\<close> every other one. \<open>OutsideFragment\<close> is not an exception of the
  program: it marks an XML text that the model of the parser below does not cover, and no
  statement is made about what the program does with it.
\<close>

datatype error = ParseError | OSError | PermissionError | ValueError | LoadError | OutsideFragment

text \<open>
  \<^verbatim>\<open>PurePath.relative_to(other)\<close>: \<open>other\<close> has to be a prefix of the path, with the
  same root; the result is the rest, as a relative path.
\<close>

definition relative_to :: "path \<Rightarrow> path \<Rightarrow> error + path" where
  "relative_to p other =
     (let n = length (path_parts other)
      in if path_root p = path_root other \<and> take n (path_parts p) = path_parts other
         then Inr (Path [] (drop n (path_parts p)))
         else Inl ValueError)"

section \<open>Resources\<close>

text \<open>The two dataclasses derived from \<^verbatim>\<open>Resource\<close>, and their class constant.\<close>

datatype kind = Piece | Project

definition DIRECTORY :: "kind \<Rightarrow> path" where
  "DIRECTORY k = (case k of Piece \<Rightarrow> parse_parts ''pieces'' | Project \<Rightarrow> parse_parts ''projects'')"

text \<open>
  What the field \<^verbatim>\<open>_description_path\<close> can hold. The class body binds the name
  \<^verbatim>\<open>description_path\<close> twice: first to \<^verbatim>\<open>None\<close>, as the default of the init-only
  variable, then to the \<^verbatim>\<open>cached_property\<close> of the same name. The dataclass decorator
  runs after the class body and reads the default with \<^verbatim>\<open>getattr(cls, name)\<close>, so
  the default of the init-only variable is the \<^verbatim>\<open>cached_property\<close> object itself, and
  \<^verbatim>\<open>__post_init__\<close> stores it, since it is not \<^verbatim>\<open>None\<close>.
\<close>

datatype description_ref = NoneRef | PathRef path | CachedPropertyRef

text \<open>
  Modelled from the spec: \<^verbatim>\<open>Document\<close> (module \<^verbatim>\<open>document\<close>) is not among the
  sources; it owns a title, a markup body tree and an optional primary image.
  The tree is an \<^verbatim>\<open>xml.etree.ElementTree.Element\<close>: tag, attributes in insertion
  order, text, tail and children.
\<close>

datatype element =
  Element (elem_tag: string) (elem_attrib: "(string \<times> string) list")
    (elem_text: "string option") (elem_tail: "string option") (elem_children: "element list")

record document =
  title :: string
  body :: element
  primary_image :: "element option"

text \<open>
  An instance: the dataclass fields, and the three entries that
  \<^verbatim>\<open>functools.cached_property\<close> puts into the instance dictionary
  (\<open>None\<close>: not computed yet).
\<close>

record resource =
  cls :: kind
  path :: path
  slug :: string
  description_path_field :: description_ref
  cached_assets :: "path list option"
  cached_description_path :: "path option option"
  cached_description :: "document option"

text \<open>
  The generated \<^verbatim>\<open>__init__\<close> followed by \<^verbatim>\<open>__post_init__\<close>. The arguments are
  \<^verbatim>\<open>path\<close>, \<^verbatim>\<open>slug\<close> (default \<^verbatim>\<open>None\<close>), \<^verbatim>\<open>_description_path\<close> (default
  \<^verbatim>\<open>None\<close>) and the init-only \<^verbatim>\<open>description_path\<close>, where \<open>None\<close> stands for an
  argument that is not passed. \<^verbatim>\<open>not self.slug\<close> holds for \<^verbatim>\<open>None\<close> and for the
  empty string. \<^verbatim>\<open>sluggify\<close> (module \<^verbatim>\<open>util\<close>) is not among the sources and is a
  parameter.
\<close>

definition Resource ::
  "(string \<Rightarrow> string) \<Rightarrow> kind \<Rightarrow> path \<Rightarrow> string option \<Rightarrow> description_ref \<Rightarrow>
   description_ref option \<Rightarrow> resource" where
  "Resource sluggify k p slug_arg field_arg initvar_arg =
     (let description_path = (case initvar_arg of None \<Rightarrow> CachedPropertyRef | Some v \<Rightarrow> v)
      in \<lparr> cls = k,
           path = p,
           slug = (case slug_arg of
                     None \<Rightarrow> sluggify (stem p)
                   | Some s \<Rightarrow> if s = [] then sluggify (stem p) else s),
           description_path_field =
             (if description_path \<noteq> NoneRef then description_path else field_arg),
           cached_assets = None,
           cached_description_path = None,
           cached_description = None \<rparr>)"

definition from_path :: "(string \<Rightarrow> string) \<Rightarrow> kind \<Rightarrow> path \<Rightarrow> resource" where
  "from_path sluggify k p =
     (if suffix p = ''.md'' \<or> suffix p = ''.html''
      then Resource sluggify k (parent p) None NoneRef (Some (PathRef p))
      else Resource sluggify k p None NoneRef None)"

section \<open>Markup (xml.etree.ElementTree)\<close>

text \<open>\<^verbatim>\<open>Element.set\<close> on the attribute dictionary, which keeps insertion order.\<close>

fun dict_set :: "(string \<times> string) list \<Rightarrow> string \<Rightarrow> string \<Rightarrow> (string \<times> string) list" where
  "dict_set [] k v = [(k, v)]"
| "dict_set ((k', v') # kvs) k v =
     (if k' = k then (k, v) # kvs else (k', v') # dict_set kvs k v)"

definition elem_set :: "element \<Rightarrow> string \<Rightarrow> string \<Rightarrow> element" where
  "elem_set e k v =
     Element (elem_tag e) (dict_set (elem_attrib e) k v) (elem_text e) (elem_tail e)
       (elem_children e)"

definition elem_append :: "element \<Rightarrow> element \<Rightarrow> element" where
  "elem_append e c =
     Element (elem_tag e) (elem_attrib e) (elem_text e) (elem_tail e) (elem_children e @ [c])"

text \<open>\<^verbatim>\<open>Element.insert(index, child)\<close> for an index that is not negative.\<close>

definition elem_insert :: "element \<Rightarrow> nat \<Rightarrow> element \<Rightarrow> element" where
  "elem_insert e i c =
     Element (elem_tag e) (elem_attrib e) (elem_text e) (elem_tail e)
       (take i (elem_children e) @ c # drop i (elem_children e))"

definition makeelement :: "string \<Rightarrow> (string \<times> string) list \<Rightarrow> element" where
  "makeelement t attrib = Element t attrib None None []"

definition make_headline_image :: "string \<Rightarrow> string \<Rightarrow> bool \<Rightarrow> element" where
  "make_headline_image src alt wide =
     (let img = makeelement ''img'' [];
          img = elem_set img ''src'' src;
          img = elem_set img ''alt'' alt
      in if wide then elem_set img ''class'' ''wide'' else elem_set img ''class'' ''tall'')"

subsection \<open>The parser behind \<^verbatim>\<open>ET.fromstring\<close>\<close>

text \<open>
  \<^verbatim>\<open>ET.fromstring\<close> feeds the text to expat and builds the tree from its events with a
  \<^verbatim>\<open>TreeBuilder\<close>. The model covers the fragment of XML that the description template
  lives in: start and end tags made of an ASCII name without a colon only, character data,
  and the five predefined entity references. Attributes, empty-element tags, comments,
  processing instructions, CDATA sections, character references, names with a namespace
  prefix (the parser runs with namespaces on) and names beyond ASCII end in
  \<open>OutsideFragment\<close>. A colon cannot start a name and cannot stand in an entity name. Inside the fragment the model follows XML 1.0: \<open><\<close> and \<open>&\<close> are
  markup, a carriage return (with a line feed that follows it) is read as one line feed,
  control characters other than tab and line feed are refused, and so is \<open>]]>\<close> in
  character data.
\<close>

datatype event = StartElement string | EndElement string | CharacterData string

datatype scan = Content bool | TagOpen | StartName string | EndName string | Reference string

definition ord :: "char \<Rightarrow> nat" where
  "ord c = of_char c"

definition name_start_char :: "char \<Rightarrow> bool" where
  "name_start_char c =
     (c = CHR ''_'' \<or> (65 \<le> ord c \<and> ord c \<le> 90) \<or> (97 \<le> ord c \<and> ord c \<le> 122))"

definition name_char :: "char \<Rightarrow> bool" where
  "name_char c =
     (name_start_char c \<or> c = CHR ''-'' \<or> c = CHR ''.'' \<or> (48 \<le> ord c \<and> ord c \<le> 57))"

definition predefined :: "string \<Rightarrow> char option" where
  "predefined n =
     (if n = ''lt'' then Some (CHR ''<'')
      else if n = ''gt'' then Some (CHR ''>'')
      else if n = ''amp'' then Some (CHR ''&'')
      else if n = ''quot'' then Some (CHR 0x22)
      else if n = ''apos'' then Some (CHR 0x27)
      else None)"

definition emit :: "event \<Rightarrow> error + event list \<Rightarrow> error + event list" where
  "emit ev r = (case r of Inl e \<Rightarrow> Inl e | Inr evs \<Rightarrow> Inr (ev # evs))"

text \<open>
  The scanner, one character at a time. \<open>Content cr\<close> is character data, \<open>cr\<close> telling
  that the character before was a carriage return. An input that ends inside a tag or a
  reference is an unclosed token.
\<close>

fun expat :: "scan \<Rightarrow> string \<Rightarrow> error + event list" where
  "expat (Content cr) [] = Inr []"
| "expat TagOpen [] = Inl ParseError"
| "expat (StartName n) [] = Inl ParseError"
| "expat (EndName n) [] = Inl ParseError"
| "expat (Reference n) [] = Inl ParseError"
| "expat (Content cr) (c # cs) =
     (if cr \<and> c = CHR 0x0A then expat (Content False) cs
      else if c = CHR ''<'' then expat TagOpen cs
      else if c = CHR ''&'' then expat (Reference []) cs
      else if c = CHR '']'' \<and> take 2 cs = '']>'' then Inl ParseError
      else if c = CHR 0x0D then emit (CharacterData [CHR 0x0A]) (expat (Content True) cs)
      else if ord c < 32 \<and> c \<noteq> CHR 0x09 \<and> c \<noteq> CHR 0x0A then Inl ParseError
      else emit (CharacterData [c]) (expat (Content False) cs))"
| "expat TagOpen (c # cs) =
     (if c = CHR ''/'' then expat (EndName []) cs
      else if c = CHR ''!'' \<or> c = CHR ''?'' then Inl OutsideFragment
      else if name_start_char c then expat (StartName [c]) cs
      else if 128 \<le> ord c then Inl OutsideFragment
      else Inl ParseError)"
| "expat (StartName n) (c # cs) =
     (if c = CHR ''>'' then emit (StartElement n) (expat (Content False) cs)
      else if name_char c then expat (StartName (n @ [c])) cs
      else Inl OutsideFragment)"
| "expat (EndName n) (c # cs) =
     (if c = CHR ''>'' then
        (if n = [] then Inl ParseError else emit (EndElement n) (expat (Content False) cs))
      else if (n = [] \<and> name_start_char c) \<or> (n \<noteq> [] \<and> name_char c)
        then expat (EndName (n @ [c])) cs
      else Inl OutsideFragment)"
| "expat (Reference n) (c # cs) =
     (if c = CHR '';'' then
        (case predefined n of
           Some ch \<Rightarrow> emit (CharacterData [ch]) (expat (Content False) cs)
         | None \<Rightarrow> Inl ParseError)
      else if c = CHR ''#'' \<or> 128 \<le> ord c then Inl OutsideFragment
      else if name_char c then expat (Reference (n @ [c])) cs
      else Inl ParseError)"

text \<open>
  The tree builder. A frame is an element that is still open: its tag, the text read
  before its first child, and its finished children, the last one first. Character data
  after a child is the tail of that child. Text and tail stay \<^verbatim>\<open>None\<close> when no
  character data was read for them.
\<close>

type_synonym frame = "string \<times> string \<times> element list"

definition add_tail :: "string \<Rightarrow> element \<Rightarrow> element" where
  "add_tail d e =
     Element (elem_tag e) (elem_attrib e) (elem_text e)
       (Some ((case elem_tail e of None \<Rightarrow> [] | Some t \<Rightarrow> t) @ d)) (elem_children e)"

fun add_data :: "string \<Rightarrow> frame \<Rightarrow> frame" where
  "add_data d (t, txt, []) = (t, txt @ d, [])"
| "add_data d (t, txt, c # ch) = (t, txt, add_tail d c # ch)"

fun add_child :: "element \<Rightarrow> frame \<Rightarrow> frame" where
  "add_child e (t, txt, ch) = (t, txt, e # ch)"

definition close_frame :: "frame \<Rightarrow> element" where
  "close_frame f =
     (case f of (t, txt, ch) \<Rightarrow>
        Element t [] (if txt = [] then None else Some txt) None (rev ch))"

definition is_space :: "char \<Rightarrow> bool" where
  "is_space c = (c = CHR '' '' \<or> c = CHR 0x09 \<or> c = CHR 0x0A \<or> c = CHR 0x0D)"

text \<open>
  The second argument is the root element once it is closed. A document has one root;
  outside of it only white space may stand; every end tag closes the element that is open.
\<close>

fun treebuilder :: "frame list \<Rightarrow> element option \<Rightarrow> event list \<Rightarrow> error + element" where
  "treebuilder [] None [] = Inl ParseError"
| "treebuilder [] (Some e) [] = Inr e"
| "treebuilder (f # st) r [] = Inl ParseError"
| "treebuilder st r (StartElement t # evs) =
     (if st = [] \<and> r \<noteq> None then Inl ParseError
      else treebuilder ((t, [], []) # st) r evs)"
| "treebuilder [] r (EndElement t # evs) = Inl ParseError"
| "treebuilder (f # st) r (EndElement t # evs) =
     (if fst f \<noteq> t then Inl ParseError
      else (case st of
              [] \<Rightarrow> treebuilder [] (Some (close_frame f)) evs
            | g # st' \<Rightarrow> treebuilder (add_child (close_frame f) g # st') r evs))"
| "treebuilder [] r (CharacterData d # evs) =
     (if list_all is_space d then treebuilder [] r evs else Inl ParseError)"
| "treebuilder (f # st) r (CharacterData d # evs) = treebuilder (add_data d f # st) r evs"

definition fromstring :: "string \<Rightarrow> error + element" where
  "fromstring s =
     (case expat (Content False) s of
        Inl e \<Rightarrow> Inl e
      | Inr evs \<Rightarrow> treebuilder [] None evs)"

section \<open>The world outside: file system and collaborators\<close>

text \<open>
  The file system as the builder sees it. \<^verbatim>\<open>Path.exists()\<close> and \<^verbatim>\<open>Path.is_dir()\<close>
  answer \<^verbatim>\<open>False\<close> for a path that is missing, and raise every other \<^verbatim>\<open>OSError\<close> of
  the underlying \<^verbatim>\<open>stat\<close> (a name that is too long, a directory that may not be
  searched). \<^verbatim>\<open>os.listdir\<close> gives the names in a directory in listing order or fails
  (the path is missing or is no directory).
\<close>

record filesystem =
  fs_exists :: "path \<Rightarrow> error + bool"
  fs_is_dir :: "path \<Rightarrow> error + bool"
  fs_listdir :: "path \<Rightarrow> error + string list"

text \<open>
  Modelled from the spec: \<^verbatim>\<open>sluggify\<close> and \<^verbatim>\<open>is_wide\<close> (module \<^verbatim>\<open>util\<close>) and
  \<^verbatim>\<open>Document.load_file\<close> (module \<^verbatim>\<open>document\<close>) are not among the sources. The spec
  asks of the first two only that they are pure functions of their input; the loader may
  fail.
\<close>

record externals =
  sluggify :: "string \<Rightarrow> string"
  is_wide :: "path \<Rightarrow> bool"
  load_file :: "path \<Rightarrow> error + document"

text \<open>\<^verbatim>\<open>Path.iterdir()\<close>, read to its end.\<close>

definition iterdir :: "filesystem \<Rightarrow> path \<Rightarrow> error + path list" where
  "iterdir fs p =
     (case fs_listdir fs p of
        Inl e \<Rightarrow> Inl e
      | Inr names \<Rightarrow> Inr (map (make_child_relpath p) names))"

text \<open>
  \<^verbatim>\<open>Path.glob(pattern)\<close>, read to its end, for a pattern of one component without wild
  cards, the only kind the builder uses. \<^verbatim>\<open>select_from\<close> gives nothing when the path
  is no directory; the precise selector then tests whether the child of that name exists,
  and reads a \<^verbatim>\<open>PermissionError\<close> of that test as no match.
\<close>

definition glob :: "filesystem \<Rightarrow> path \<Rightarrow> string \<Rightarrow> error + path list" where
  "glob fs p pattern =
     (case fs_is_dir fs p of
        Inl e \<Rightarrow> Inl e
      | Inr False \<Rightarrow> Inr []
      | Inr True \<Rightarrow>
          (case fs_exists fs (make_child_relpath p pattern) of
             Inl e \<Rightarrow> if e = PermissionError then Inr [] else Inl e
           | Inr True \<Rightarrow> Inr [make_child_relpath p pattern]
           | Inr False \<Rightarrow> Inr []))"

section \<open>The cached properties of a resource\<close>

text \<open>
  Each property is the function under the decorator (\<open>_func\<close>) and the access through
  \<^verbatim>\<open>functools.cached_property\<close>: a value in the instance dictionary is returned as it
  is, otherwise the function runs and its result is stored. A function that raises stores
  nothing.
\<close>

definition assets_func :: "filesystem \<Rightarrow> resource \<Rightarrow> error + path list" where
  "assets_func fs self =
     (case iterdir fs (path self) of
        Inl e \<Rightarrow> Inl e
      | Inr ps \<Rightarrow>
          Inr (filter (\<lambda>p. suffix p \<noteq> ''.md'' \<and> suffix p \<noteq> ''.html'' \<and> suffix p \<noteq> []) ps))"

definition assets :: "filesystem \<Rightarrow> resource \<Rightarrow> (error + path list) \<times> resource" where
  "assets fs self =
     (case cached_assets self of
        Some v \<Rightarrow> (Inr v, self)
      | None \<Rightarrow>
          (case assets_func fs self of
             Inl e \<Rightarrow> (Inl e, self)
           | Inr v \<Rightarrow> (Inr v, self\<lparr>cached_assets := Some v\<rparr>)))"

definition description_path_func :: "filesystem \<Rightarrow> resource \<Rightarrow> error + path option" where
  "description_path_func fs self =
     (case fs_exists fs (truediv (path self) ''index.md'') of
        Inl e \<Rightarrow> Inl e
      | Inr True \<Rightarrow> Inr (Some (truediv (path self) ''index.md''))
      | Inr False \<Rightarrow>
          (case fs_exists fs (truediv (path self) (slug self @ ''.md'')) of
             Inl e \<Rightarrow> Inl e
           | Inr True \<Rightarrow> Inr (Some (truediv (path self) (slug self @ ''.md'')))
           | Inr False \<Rightarrow>
               (case glob fs (path self) ''.md'' of
                  Inl e \<Rightarrow> Inl e
                | Inr (p # _) \<Rightarrow> Inr (Some p)
                | Inr [] \<Rightarrow> Inr None)))"

definition description_path ::
  "filesystem \<Rightarrow> resource \<Rightarrow> (error + path option) \<times> resource" where
  "description_path fs self =
     (case cached_description_path self of
        Some v \<Rightarrow> (Inr v, self)
      | None \<Rightarrow>
          (case description_path_func fs self of
             Inl e \<Rightarrow> (Inl e, self)
           | Inr v \<Rightarrow> (Inr v, self\<lparr>cached_description_path := Some v\<rparr>)))"

text \<open>A record of the \<^verbatim>\<open>logging\<close> module: the level and the formatted message.\<close>

datatype log_record = Debug string

definition template :: "string \<Rightarrow> string" where
  "template s = ''<html><section><h1>'' @ s @ ''</h1></section></html>''"

text \<open>
  \<^verbatim>\<open>_generate_description\<close>. \<^verbatim>\<open>self.assets\<close> is read up to three times; the first
  read fills the cache and the later ones return the same list. \<^verbatim>\<open>self.assets[0]\<close>
  is evaluated in the branch where the list is not empty.
\<close>

definition generate_description ::
  "externals \<Rightarrow> filesystem \<Rightarrow> resource \<Rightarrow> (error + document) \<times> resource" where
  "generate_description E fs self =
     (case fromstring (template (slug self)) of
        Inl e \<Rightarrow> (Inl e, self)
      | Inr body0 \<Rightarrow>
          (case assets fs self of
             (Inl e, self1) \<Rightarrow> (Inl e, self1)
           | (Inr as, self1) \<Rightarrow>
               (case as of
                  [] \<Rightarrow> (Inr \<lparr>title = slug self, body = body0, primary_image = None\<rparr>, self1)
                | a0 # _ \<Rightarrow>
                    (let p = (case find (\<lambda>p. sluggify E (stem p) = slug self) as of
                                Some p \<Rightarrow> p
                              | None \<Rightarrow> a0)
                     in (case relative_to p (path self) of
                           Inl e \<Rightarrow> (Inl e, self1)
                         | Inr rel \<Rightarrow>
                             (let headline_img =
                                    make_headline_image (str rel) (stem p) (is_wide E p);
                                  div0 = makeelement ''div'' [(''class'', ''headline'')];
                                  div1 = elem_append div0 headline_img;
                                  body1 = elem_insert body0 0 div1
                              in (Inr \<lparr>title = slug self, body = body1,
                                       primary_image = Some headline_img\<rparr>, self1)))))))"

definition debug_message :: "resource \<Rightarrow> log_record" where
  "debug_message self =
     Debug (''generating default description for '' @ str (DIRECTORY (cls self)) @ ''/''
            @ slug self)"

definition description_func ::
  "externals \<Rightarrow> filesystem \<Rightarrow> resource \<Rightarrow> (error + document) \<times> resource \<times> log_record list" where
  "description_func E fs self =
     (case description_path fs self of
        (Inl e, self1) \<Rightarrow> (Inl e, self1, [])
      | (Inr None, self1) \<Rightarrow>
          (case generate_description E fs self1 of
             (r, self2) \<Rightarrow> (r, self2, [debug_message self]))
      | (Inr (Some p), self1) \<Rightarrow> (load_file E p, self1, []))"

definition description ::
  "externals \<Rightarrow> filesystem \<Rightarrow> resource \<Rightarrow> (error + document) \<times> resource \<times> log_record list" where
  "description E fs self =
     (case cached_description self of
        Some d \<Rightarrow> (Inr d, self, [])
      | None \<Rightarrow>
          (case description_func E fs self of
             (Inl e, self1, lg) \<Rightarrow> (Inl e, self1, lg)
           | (Inr d, self1, lg) \<Rightarrow> (Inr d, self1\<lparr>cached_description := Some d\<rparr>, lg)))"

section \<open>A concrete world for the examples\<close>

text \<open>
  An instance of \<^verbatim>\<open>sluggify\<close> (blanks become hyphens), of \<^verbatim>\<open>is_wide\<close> and of the
  loader, and a file system that holds one directory with the given names in it. As on
  the usual file systems, a path with a component of more than 255 characters is refused
  by \<^verbatim>\<open>stat\<close> (the name is too long), which \<^verbatim>\<open>exists\<close> and \<^verbatim>\<open>is_dir\<close> raise.
\<close>

definition sample_sluggify :: "string \<Rightarrow> string" where
  "sample_sluggify s = map (\<lambda>c. if c = CHR '' '' then CHR ''-'' else c) s"

definition sample_document :: document where
  "sample_document =
     \<lparr>title = ''loaded'', body = Element ''html'' [] None None [], primary_image = None\<rparr>"

definition sample_externals :: externals where
  "sample_externals =
     \<lparr>sluggify = sample_sluggify,
      is_wide = (\<lambda>p. stem p = ''cover''),
      load_file = (\<lambda>p. Inr sample_document)\<rparr>"

definition name_too_long :: "path \<Rightarrow> bool" where
  "name_too_long p = list_ex (\<lambda>c. 255 < length c) (path_parts p)"

definition dir_fs :: "path \<Rightarrow> string list \<Rightarrow> filesystem" where
  "dir_fs d names =
     \<lparr>fs_exists = (\<lambda>p. if name_too_long p then Inl OSError
                       else Inr (p = d \<or> p \<in> set (map (make_child_relpath d) names))),
      fs_is_dir = (\<lambda>p. if name_too_long p then Inl OSError else Inr (p = d)),
      fs_listdir = (\<lambda>p. if p = d then Inr names else Inl OSError)\<rparr>"

definition gallery :: path where
  "gallery = Path [] [''content'', ''gallery'']"

definition gallery_piece :: resource where
  "gallery_piece = Resource sample_sluggify Piece gallery None NoneRef None"

section \<open>Vocabulary of the statements\<close>

text \<open>
  Text that XML reads as character data and hands back unchanged: no \<open><\<close>, no \<open>&\<close>, no
  carriage return, no \<open>]]>\<close>, and no control character other than tab and line feed.
\<close>

fun plain_text :: "string \<Rightarrow> bool" where
  "plain_text [] = True"
| "plain_text (c # cs) =
     (c \<noteq> CHR ''<'' \<and> c \<noteq> CHR ''&'' \<and> c \<noteq> CHR 0x0D
      \<and> \<not> (c = CHR '']'' \<and> take 2 cs = '']>'')
      \<and> \<not> (ord c < 32 \<and> c \<noteq> CHR 0x09 \<and> c \<noteq> CHR 0x0A)
      \<and> plain_text cs)"

text \<open>
  The body that holds a heading and nothing else: one section with one \<^verbatim>\<open>h1\<close>, whose
  text is \<open>s\<close> (an element without character data has the text \<^verbatim>\<open>None\<close>).
\<close>

definition heading_only :: "string \<Rightarrow> element" where
  "heading_only s =
     Element ''html'' [] None None
       [Element ''section'' [] None None
          [Element ''h1'' [] (if s = [] then None else Some s) None []]]"

text \<open>The test of the list comprehension in \<^verbatim>\<open>assets\<close>, for the statements below.\<close>

definition listed_assets :: "path \<Rightarrow> string list \<Rightarrow> path list" where
  "listed_assets d names =
     filter (\<lambda>p. suffix p \<noteq> ''.md'' \<and> suffix p \<noteq> ''.html'' \<and> suffix p \<noteq> [])
       (map (make_child_relpath d) names)"

text \<open>A piece whose slug makes the name of \<^verbatim>\<open>{slug}.md\<close> 256 characters long.\<close>

definition long_slug_piece :: resource where
  "long_slug_piece =
     Resource sample_sluggify Piece gallery (Some (replicate 253 (CHR ''a''))) NoneRef None"

text \<open>A piece whose slug holds an ampersand.\<close>

definition fish_and_chips :: resource where
  "fish_and_chips =
     Resource sample_sluggify Piece gallery (Some ''Fish & Chips'') NoneRef None"

section \<open>Construction\<close>

lemma name_gallery_index: "name (make_child_relpath gallery ''index.md'') = ''index.md''"
  by (simp add: name_def make_child_relpath_def gallery_def)

lemma rfind_index_md: "rfind ''index.md'' (CHR ''.'') = Some 5"
  by (simp add: rfind_def)

lemma suffix_gallery_index: "suffix (make_child_relpath gallery ''index.md'') = ''.md''"
  by (simp add: suffix_def name_gallery_index rfind_index_md)

lemma parent_gallery_index: "parent (make_child_relpath gallery ''index.md'') = gallery"
  by (simp add: parent_def make_child_relpath_def gallery_def)

lemma stem_gallery: "stem gallery = ''gallery''"
  by (simp add: stem_def name_def gallery_def rfind_def)

text \<open>
  C8 (amended). A resource built without a slug, with \<^verbatim>\<open>None\<close> or with the empty
  string as slug has the slug \<^verbatim>\<open>sluggify(path.stem)\<close>; a resource built with a slug
  that is not empty has exactly that slug.
\<close>

theorem slug_of_Resource:
  "slug (Resource f k p None fa ia) = f (stem p)
   \<and> slug (Resource f k p (Some []) fa ia) = f (stem p)
   \<and> (s \<noteq> [] \<longrightarrow> slug (Resource f k p (Some s) fa ia) = s)"
  by (simp add: Resource_def Let_def)

theorem slug_of_Resource_witness:
  "slug (Resource sample_sluggify Piece gallery None NoneRef None) = ''gallery''
   \<and> slug (Resource sample_sluggify Piece gallery (Some ''My Piece'') NoneRef None) = ''My Piece''"
  using slug_of_Resource [of sample_sluggify Piece gallery NoneRef None "''My Piece''"]
  by (simp add: stem_gallery sample_sluggify_def)

text \<open>
  C8 as stated fails: the empty string, supplied as the slug, is replaced by the slug of
  the directory name.
\<close>

theorem explicit_empty_slug_replaced:
  "slug (Resource sample_sluggify Piece gallery (Some []) NoneRef None) \<noteq> []"
  by (simp add: Resource_def Let_def stem_gallery sample_sluggify_def)

text \<open>
  What \<^verbatim>\<open>from_path\<close> stores. For a path with the extension \<^verbatim>\<open>.md\<close> or \<^verbatim>\<open>.html\<close>
  the resource is that of the parent directory and holds the input as its explicit
  description path. For every other input the resource is that of the input itself; its
  field \<^verbatim>\<open>_description_path\<close> then holds the property object of the class.
\<close>

lemma from_path_fields:
  "(suffix p = ''.md'' \<or> suffix p = ''.html'' \<longrightarrow>
      path (from_path f k p) = parent p
      \<and> description_path_field (from_path f k p) = PathRef p)
   \<and> (\<not> (suffix p = ''.md'' \<or> suffix p = ''.html'') \<longrightarrow>
      path (from_path f k p) = p
      \<and> description_path_field (from_path f k p) = CachedPropertyRef)"
  by (simp add: from_path_def Resource_def Let_def)

text \<open>
  C9, at a directory. The claim holds for the path of the resource, and fails for the
  explicit description path: the declared default \<^verbatim>\<open>None\<close> of the init-only variable is
  shadowed by the \<^verbatim>\<open>cached_property\<close> of the same name, \<^verbatim>\<open>__post_init__\<close> finds it
  not to be \<^verbatim>\<open>None\<close> and stores it. So the field is not \<^verbatim>\<open>None\<close>, and the resource
  is not the one that \<^verbatim>\<open>cls(path, description_path=None)\<close> builds.
\<close>

theorem from_path_directory_field:
  "path (from_path sample_sluggify Piece gallery) = gallery
   \<and> description_path_field (from_path sample_sluggify Piece gallery) = CachedPropertyRef
   \<and> description_path_field (from_path sample_sluggify Piece gallery) \<noteq> NoneRef
   \<and> description_path_field (Resource sample_sluggify Piece gallery None NoneRef (Some NoneRef))
       = NoneRef
   \<and> from_path sample_sluggify Piece gallery
       \<noteq> Resource sample_sluggify Piece gallery None NoneRef (Some NoneRef)"
proof -
  have dir: "suffix gallery = []"
    by (simp add: suffix_def name_def gallery_def rfind_def)
  show ?thesis
    by (simp add: from_path_def dir Resource_def Let_def)
qed

text \<open>
  C10. For a path with the extension \<^verbatim>\<open>.md\<close> or \<^verbatim>\<open>.html\<close>, the slug of the resource
  that \<^verbatim>\<open>from_path\<close> returns is \<^verbatim>\<open>sluggify\<close> of the stem of the parent directory.
\<close>

theorem from_path_slug:
  "suffix p = ''.md'' \<or> suffix p = ''.html'' \<Longrightarrow>
     slug (from_path f k p) = f (stem (parent p))"
  by (simp add: from_path_def Resource_def Let_def)

theorem from_path_slug_witness:
  "suffix (make_child_relpath gallery ''index.md'') = ''.md''
   \<and> slug (from_path sample_sluggify Piece (make_child_relpath gallery ''index.md'')) = ''gallery''"
proof -
  have md: "suffix (make_child_relpath gallery ''index.md'') = ''.md''"
    by (rule suffix_gallery_index)
  then have "slug (from_path sample_sluggify Piece (make_child_relpath gallery ''index.md''))
               = sample_sluggify (stem (parent (make_child_relpath gallery ''index.md'')))"
    by (intro from_path_slug) simp
  then show ?thesis
    by (simp add: md parent_gallery_index stem_gallery sample_sluggify_def)
qed

section \<open>Assets and the description path\<close>

lemma assets_cached:
  "assets fs r = (Inr v, r1) \<Longrightarrow> assets fs' r1 = (Inr v, r1)"
  by (auto simp: assets_def split: option.splits sum.splits)

text \<open>
  C7. With the cache empty and a directory that can be listed, \<^verbatim>\<open>assets\<close> is the list of
  the children of \<^verbatim>\<open>path\<close> whose extension is not \<^verbatim>\<open>.md\<close>, \<^verbatim>\<open>.html\<close> or empty,
  in listing order; a second access, whatever the file system holds by then, returns the
  same list and leaves the instance as it is.
\<close>

theorem assets_listing_cached:
  assumes fresh: "cached_assets r = None"
    and listing: "fs_listdir fs (path r) = Inr names"
  shows "fst (assets fs r) =
           Inr (filter (\<lambda>p. suffix p \<noteq> ''.md'' \<and> suffix p \<noteq> ''.html'' \<and> suffix p \<noteq> [])
                  (map (make_child_relpath (path r)) names))
         \<and> assets fs' (snd (assets fs r)) = (fst (assets fs r), snd (assets fs r))"
  using fresh listing
  by (simp add: assets_def assets_func_def iterdir_def)

lemma truediv_index: "truediv p ''index.md'' = make_child_relpath p ''index.md''"
  by (simp add: truediv_def parse_parts_def splitroot_def make_child_relpath_def)

lemma name_if: "name p = (if path_parts p = [] then [] else last (path_parts p))"
  by (simp add: name_def split: list.splits)

lemma parent_if:
  "parent p = (if path_parts p = [] then p else Path (path_root p) (butlast (path_parts p)))"
  by (simp add: parent_def split: list.splits)

lemma name_child: "name (make_child_relpath p n) = n"
  by (simp add: name_if make_child_relpath_def)

lemma parent_child: "parent (make_child_relpath p n) = p"
  by (simp add: parent_if make_child_relpath_def)

lemma suffix_child:
  "suffix (make_child_relpath p n) =
     (case rfind n (CHR ''.'') of
        None \<Rightarrow> []
      | Some i \<Rightarrow> if 0 < i \<and> i + 1 < length n then drop i n else [])"
  by (simp add: suffix_def name_child split: option.splits)

lemma stem_child:
  "stem (make_child_relpath p n) =
     (case rfind n (CHR ''.'') of
        None \<Rightarrow> n
      | Some i \<Rightarrow> if 0 < i \<and> i + 1 < length n then take i n else n)"
  by (simp add: stem_def name_child split: option.splits)

lemma gallery_piece_fields:
  "path gallery_piece = gallery" "slug gallery_piece = ''gallery''" "cls gallery_piece = Piece"
  "cached_assets gallery_piece = None" "cached_description_path gallery_piece = None"
  "cached_description gallery_piece = None"
  by (simp_all add: gallery_piece_def Resource_def Let_def stem_gallery sample_sluggify_def)

theorem assets_listing_cached_witness:
  "fst (assets (dir_fs gallery [''index.md'', ''cover.jpg'', ''notes'', ''gallery.png'', ''page.html''])
          gallery_piece)
     = Inr [make_child_relpath gallery ''cover.jpg'', make_child_relpath gallery ''gallery.png'']
   \<and> fst (assets (dir_fs gallery [])
            (snd (assets (dir_fs gallery [''index.md'', ''cover.jpg'', ''notes'', ''gallery.png'', ''page.html''])
                    gallery_piece)))
     = Inr [make_child_relpath gallery ''cover.jpg'', make_child_relpath gallery ''gallery.png'']"
proof -
  let ?fs = "dir_fs gallery [''index.md'', ''cover.jpg'', ''notes'', ''gallery.png'', ''page.html'']"
  have listing: "fs_listdir ?fs (path gallery_piece)
                   = Inr [''index.md'', ''cover.jpg'', ''notes'', ''gallery.png'', ''page.html'']"
    by (simp add: dir_fs_def gallery_piece_fields)
  have fresh: "cached_assets gallery_piece = None"
    by (rule gallery_piece_fields)
  show ?thesis
    using assets_listing_cached [OF fresh listing, of "dir_fs gallery []"]
    by (simp add: gallery_piece_fields suffix_child rfind_def)
qed

lemma split_not_empty: "split c s \<noteq> []"
  by (induction s) (auto split: list.splits)

lemma split_no_sep: "c \<notin> set b \<Longrightarrow> split c b = [b]"
  by (induction b) auto

lemma truediv_simple:
  assumes "CHR ''/'' \<notin> set s" and "s \<noteq> []" and "s \<noteq> ''.''"
  shows "truediv p s = make_child_relpath p s"
proof -
  obtain c cs where s: "s = c # cs"
    using assms(2) by (cases s) auto
  have "c \<noteq> CHR ''/''"
    using assms(1) s by auto
  then have root: "splitroot s = ([], s)"
    by (simp add: splitroot_def s)
  have "split (CHR ''/'') s = [s]"
    using assms(1) by (rule split_no_sep)
  then show ?thesis
    using assms(2,3) by (simp add: truediv_def parse_parts_def root make_child_relpath_def)
qed

lemma truediv_dot_md: "CHR ''/'' \<notin> set s \<Longrightarrow> truediv p (s @ ''.md'') = make_child_relpath p (s @ ''.md'')"
  by (rule truediv_simple) auto

lemma truediv_gallery_md: "truediv p ''gallery.md'' = make_child_relpath p ''gallery.md''"
  by (rule truediv_simple) simp_all

lemma description_path_fresh:
  "cached_description_path r = None \<Longrightarrow>
     fst (description_path fs r) = description_path_func fs r"
  by (simp add: description_path_def split: sum.splits)

text \<open>
  C2 (amended). On the first access, and as far as the tests of the file system answer,
  \<^verbatim>\<open>description_path\<close> is \<^verbatim>\<open>path/index.md\<close> if that exists, otherwise
  \<^verbatim>\<open>path/{slug}.md\<close> if that exists, otherwise the entry that the literal pattern
  \<^verbatim>\<open>.md\<close> matches, which is the child named \<^verbatim>\<open>.md\<close> and is found when the path is a
  directory and that child exists (a \<^verbatim>\<open>PermissionError\<close> of this last test counts as no
  match), otherwise absent. An \<^verbatim>\<open>OSError\<close> of \<^verbatim>\<open>exists\<close> for \<^verbatim>\<open>index.md\<close> or for
  \<^verbatim>\<open>{slug}.md\<close>, of \<^verbatim>\<open>is_dir\<close> for the path, or (other than a
  \<^verbatim>\<open>PermissionError\<close>) of the test for \<^verbatim>\<open>.md\<close> is raised by the property.
\<close>

theorem description_path_order:
  assumes fresh: "cached_description_path r = None"
  shows
    "(fs_exists fs (truediv (path r) ''index.md'') = Inr True \<longrightarrow>
        fst (description_path fs r) = Inr (Some (truediv (path r) ''index.md'')))
     \<and> (fs_exists fs (truediv (path r) ''index.md'') = Inr False
        \<and> fs_exists fs (truediv (path r) (slug r @ ''.md'')) = Inr True \<longrightarrow>
        fst (description_path fs r) = Inr (Some (truediv (path r) (slug r @ ''.md''))))
     \<and> (fs_exists fs (truediv (path r) ''index.md'') = Inr False
        \<and> fs_exists fs (truediv (path r) (slug r @ ''.md'')) = Inr False
        \<and> fs_is_dir fs (path r) = Inr True
        \<and> fs_exists fs (make_child_relpath (path r) ''.md'') = Inr True \<longrightarrow>
        fst (description_path fs r) = Inr (Some (make_child_relpath (path r) ''.md'')))
     \<and> (fs_exists fs (truediv (path r) ''index.md'') = Inr False
        \<and> fs_exists fs (truediv (path r) (slug r @ ''.md'')) = Inr False
        \<and> (fs_is_dir fs (path r) = Inr False
            \<or> fs_is_dir fs (path r) = Inr True
               \<and> (fs_exists fs (make_child_relpath (path r) ''.md'') = Inr False
                   \<or> fs_exists fs (make_child_relpath (path r) ''.md'') = Inl PermissionError))
        \<longrightarrow> fst (description_path fs r) = Inr None)
     \<and> (fs_exists fs (truediv (path r) ''index.md'') = Inl e \<longrightarrow>
        fst (description_path fs r) = Inl e)
     \<and> (fs_exists fs (truediv (path r) ''index.md'') = Inr False
        \<and> fs_exists fs (truediv (path r) (slug r @ ''.md'')) = Inl e \<longrightarrow>
        fst (description_path fs r) = Inl e)
     \<and> (fs_exists fs (truediv (path r) ''index.md'') = Inr False
        \<and> fs_exists fs (truediv (path r) (slug r @ ''.md'')) = Inr False
        \<and> fs_is_dir fs (path r) = Inl e \<longrightarrow>
        fst (description_path fs r) = Inl e)
     \<and> (fs_exists fs (truediv (path r) ''index.md'') = Inr False
        \<and> fs_exists fs (truediv (path r) (slug r @ ''.md'')) = Inr False
        \<and> fs_is_dir fs (path r) = Inr True
        \<and> fs_exists fs (make_child_relpath (path r) ''.md'') = Inl e
        \<and> e \<noteq> PermissionError \<longrightarrow>
        fst (description_path fs r) = Inl e)
     \<and> truediv (path r) ''index.md'' = make_child_relpath (path r) ''index.md''
     \<and> (CHR ''/'' \<notin> set (slug r) \<longrightarrow>
        truediv (path r) (slug r @ ''.md'') = make_child_relpath (path r) (slug r @ ''.md''))
     \<and> name (make_child_relpath (path r) ''.md'') = ''.md''
     \<and> parent (make_child_relpath (path r) ''.md'') = path r
     \<and> (\<forall>qs. glob fs (path r) ''.md'' = Inr qs \<longrightarrow>
          qs = [] \<or> qs = [make_child_relpath (path r) ''.md''])"
proof -
  have g: "\<forall>qs. glob fs (path r) ''.md'' = Inr qs \<longrightarrow>
          qs = [] \<or> qs = [make_child_relpath (path r) ''.md'']"
    by (auto simp: glob_def split: sum.splits bool.splits if_splits)
  have rest: "truediv (path r) ''index.md'' = make_child_relpath (path r) ''index.md''
     \<and> (CHR ''/'' \<notin> set (slug r) \<longrightarrow>
        truediv (path r) (slug r @ ''.md'') = make_child_relpath (path r) (slug r @ ''.md''))
     \<and> name (make_child_relpath (path r) ''.md'') = ''.md''
     \<and> parent (make_child_relpath (path r) ''.md'') = path r"
    by (simp add: truediv_index truediv_dot_md name_child parent_child)
  have f: "fst (description_path fs r) = description_path_func fs r"
    using fresh by (rule description_path_fresh)
  show ?thesis
    unfolding f using g rest
    by (auto simp: description_path_func_def glob_def)
qed

lemma dir_fs_tests:
  "fs_exists (dir_fs d names) p =
     (if name_too_long p then Inl OSError
      else Inr (p = d \<or> p \<in> set (map (make_child_relpath d) names)))"
  "fs_is_dir (dir_fs d names) p = (if name_too_long p then Inl OSError else Inr (p = d))"
  "fs_listdir (dir_fs d names) p = (if p = d then Inr names else Inl OSError)"
  by (simp_all add: dir_fs_def)

lemma gallery_not_too_long:
  "\<not> name_too_long gallery"
  "length n \<le> 255 \<Longrightarrow> \<not> name_too_long (make_child_relpath gallery n)"
  "255 < length n \<Longrightarrow> name_too_long (make_child_relpath gallery n)"
  by (simp_all add: name_too_long_def gallery_def make_child_relpath_def)

lemma child_not_gallery: "make_child_relpath gallery n \<noteq> gallery"
  by (simp add: make_child_relpath_def gallery_def)

lemma child_eq_iff: "(make_child_relpath d n = make_child_relpath d m) = (n = m)"
  by (simp add: make_child_relpath_def)

lemma long_slug_piece_fields:
  "path long_slug_piece = gallery" "slug long_slug_piece = replicate 253 (CHR ''a'')"
  "cached_description_path long_slug_piece = None"
  by (simp_all add: long_slug_piece_def Resource_def Let_def)

theorem description_path_order_witness:
  "fst (description_path (dir_fs gallery [''cover.jpg'', ''gallery.md'', ''.md'']) gallery_piece)
     = Inr (Some (make_child_relpath gallery ''gallery.md''))
   \<and> fst (description_path (dir_fs gallery [''cover.jpg'', ''.md'']) gallery_piece)
     = Inr (Some (make_child_relpath gallery ''.md''))
   \<and> fst (description_path (dir_fs gallery [''cover.jpg'']) gallery_piece) = Inr None
   \<and> fst (description_path (dir_fs gallery [''index.md'', ''gallery.md'']) gallery_piece)
     = Inr (Some (make_child_relpath gallery ''index.md''))"
proof -
  have fresh: "cached_description_path gallery_piece = None"
    by (rule gallery_piece_fields)
  have t: "truediv gallery (''gallery'' @ ''.md'') = make_child_relpath gallery ''gallery.md''"
    by (simp add: truediv_gallery_md)
  show ?thesis
    using description_path_order [OF fresh, of "dir_fs gallery [''cover.jpg'', ''gallery.md'', ''.md'']"]
      description_path_order [OF fresh, of "dir_fs gallery [''cover.jpg'', ''.md'']"]
      description_path_order [OF fresh, of "dir_fs gallery [''cover.jpg'']"]
      description_path_order [OF fresh, of "dir_fs gallery [''index.md'', ''gallery.md'']"]
    by (simp add: gallery_piece_fields truediv_index truediv_gallery_md dir_fs_tests
        gallery_not_too_long child_not_gallery child_eq_iff)
qed

text \<open>
  C2 as stated fails: with a slug of 253 characters neither \<^verbatim>\<open>index.md\<close> nor any
  \<^verbatim>\<open>.md\<close> entry exists and \<^verbatim>\<open>{slug}.md\<close> cannot exist, yet the result is not absent:
  the test for \<^verbatim>\<open>{slug}.md\<close> raises, the name being too long.
\<close>

theorem description_path_raises_for_long_slug:
  "fs_exists (dir_fs gallery [''cover.jpg'']) (truediv gallery ''index.md'') = Inr False
   \<and> glob (dir_fs gallery [''cover.jpg'']) gallery ''.md'' = Inr []
   \<and> fst (description_path (dir_fs gallery [''cover.jpg'']) long_slug_piece) = Inl OSError"
proof -
  have t: "truediv gallery (replicate 253 (CHR ''a'') @ ''.md'')
             = make_child_relpath gallery (replicate 253 (CHR ''a'') @ ''.md'')"
    by (rule truediv_dot_md) simp
  show ?thesis
    by (simp add: description_path_fresh long_slug_piece_fields description_path_func_def glob_def
        t truediv_index dir_fs_tests gallery_not_too_long child_not_gallery child_eq_iff)
qed

section \<open>The description template\<close>

lemma take2_before_tag:
  "(take 2 (cs @ CHR ''<'' # rest) = '']>'') = (take 2 cs = '']>'')"
proof (cases cs)
  case Nil
  then show ?thesis by simp
next
  case (Cons a as)
  then show ?thesis by (cases as) simp_all
qed

lemma expat_plain:
  "plain_text s \<Longrightarrow>
     expat (Content False) (s @ CHR ''<'' # rest) =
       (case expat TagOpen rest of
          Inl e \<Rightarrow> Inl e
        | Inr evs \<Rightarrow> Inr (map (\<lambda>c. CharacterData [c]) s @ evs))"
proof (induction s)
  case Nil
  then show ?case by (simp split: sum.splits)
next
  case (Cons c cs)
  then show ?case
    by (auto simp add: take2_before_tag emit_def simp del: take_append split: sum.splits)
qed

lemma expat_closing:
  "expat TagOpen ''/h1></section></html>'' =
     Inr [EndElement ''h1'', EndElement ''section'', EndElement ''html'']"
  by (simp add: name_start_char_def name_char_def ord_def emit_def)

lemma expat_template:
  assumes "plain_text s"
  shows "expat (Content False) (template s) =
     Inr ([StartElement ''html'', StartElement ''section'', StartElement ''h1'']
          @ map (\<lambda>c. CharacterData [c]) s
          @ [EndElement ''h1'', EndElement ''section'', EndElement ''html''])"
proof -
  have "expat (Content False) (s @ CHR ''<'' # ''/h1></section></html>'') =
          Inr (map (\<lambda>c. CharacterData [c]) s
               @ [EndElement ''h1'', EndElement ''section'', EndElement ''html''])"
    using expat_plain [OF assms, of "''/h1></section></html>''"]
    by (simp only: expat_closing sum.case)
  then show ?thesis
    by (simp add: template_def name_start_char_def name_char_def ord_def emit_def)
qed

lemma treebuilder_data:
  "treebuilder ((t, tx, []) # st) r (map (\<lambda>c. CharacterData [c]) s @ evs) =
     treebuilder ((t, tx @ s, []) # st) r evs"
  by (induction s arbitrary: tx) simp_all

lemma fromstring_template:
  "plain_text s \<Longrightarrow> fromstring (template s) = Inr (heading_only s)"
  by (simp add: fromstring_def expat_template treebuilder_data close_frame_def heading_only_def)

section \<open>Synthesis of a description\<close>

lemma assets_fresh:
  "cached_assets r = None \<Longrightarrow> fs_listdir fs (path r) = Inr names \<Longrightarrow>
     assets fs r = (Inr (listed_assets (path r) names),
                    r\<lparr>cached_assets := Some (listed_assets (path r) names)\<rparr>)"
  by (simp add: assets_def assets_func_def iterdir_def listed_assets_def)

lemma assets_failing:
  "cached_assets r = None \<Longrightarrow> fs_listdir fs (path r) = Inl e \<Longrightarrow> assets fs r = (Inl e, r)"
  by (simp add: assets_def assets_func_def iterdir_def)

lemma assets_known:
  assumes "(cached_assets r = None \<and> fs_listdir fs (path r) = Inr names)
           \<or> cached_assets r = Some (listed_assets (path r) names)"
  shows "assets fs r = (Inr (listed_assets (path r) names),
                        r\<lparr>cached_assets := Some (listed_assets (path r) names)\<rparr>)"
  using assms
proof
  assume "cached_assets r = None \<and> fs_listdir fs (path r) = Inr names"
  then show ?thesis by (simp add: assets_fresh)
next
  assume c: "cached_assets r = Some (listed_assets (path r) names)"
  then have "r\<lparr>cached_assets := Some (listed_assets (path r) names)\<rparr> = r"
    by simp
  then show ?thesis
    using c by (simp add: assets_def)
qed

lemma listed_assets_children:
  "a \<in> set (listed_assets d names) \<Longrightarrow> \<exists>n \<in> set names. a = make_child_relpath d n"
  by (auto simp: listed_assets_def)

lemma relative_to_child: "relative_to (make_child_relpath d n) d = Inr (Path [] [n])"
  by (simp add: relative_to_def make_child_relpath_def)

lemma str_single: "str (Path [] [n]) = n"
  by (simp add: str_def)

lemma find_in_set: "find P xs = Some x \<Longrightarrow> x \<in> set xs"
  by (induction xs) (auto split: if_splits)

lemma first_match_or_head_in:
  "as \<noteq> [] \<Longrightarrow> (case find P as of Some p \<Rightarrow> p | None \<Rightarrow> hd as) \<in> set as"
  by (auto dest: find_in_set split: option.splits)

lemma make_headline_image_attrib:
  "make_headline_image src alt wide =
     Element ''img'' [(''src'', src), (''alt'', alt), (''class'', if wide then ''wide'' else ''tall'')]
       None None []"
  by (simp add: make_headline_image_def makeelement_def elem_set_def)

text \<open>
  What synthesis returns when the template parses and there are assets: the first asset
  whose \<^verbatim>\<open>sluggify(stem)\<close> is the slug, or the first asset of the listing, gives the
  headline image.
\<close>

lemma generate_description_with_assets:
  assumes known: "assets fs r = (Inr (listed_assets (path r) names), r1)"
    and nonempty: "listed_assets (path r) names \<noteq> []"
    and parse: "fromstring (template (slug r)) = Inr body0"
    and sel: "sel = (case find (\<lambda>p. sluggify E (stem p) = slug r) (listed_assets (path r) names) of
                       Some p \<Rightarrow> p
                     | None \<Rightarrow> hd (listed_assets (path r) names))"
    and img: "img = Element ''img''
                      [(''src'', name sel), (''alt'', stem sel),
                       (''class'', if is_wide E sel then ''wide'' else ''tall'')] None None []"
  shows "generate_description E fs r =
           (Inr \<lparr>title = slug r,
                 body = elem_insert body0 0
                          (Element ''div'' [(''class'', ''headline'')] None None [img]),
                 primary_image = Some img\<rparr>, r1)
         \<and> sel \<in> set (listed_assets (path r) names)
         \<and> relative_to sel (path r) = Inr (Path [] [name sel])
         \<and> str (Path [] [name sel]) = name sel"
proof -
  let ?as = "listed_assets (path r) names"
  obtain a0 rest where as: "?as = a0 # rest"
    using nonempty by (cases ?as) auto
  have sel': "(case find (\<lambda>p. sluggify E (stem p) = slug r) (a0 # rest) of
                 Some p \<Rightarrow> p | None \<Rightarrow> a0) = sel"
    unfolding sel by (simp add: as del: find.simps split: option.splits)
  have mem: "sel \<in> set ?as"
    unfolding sel using nonempty by (rule first_match_or_head_in)
  then obtain n where n: "sel = make_child_relpath (path r) n"
    using listed_assets_children by blast
  have rel: "relative_to sel (path r) = Inr (Path [] [name sel])"
    by (simp add: n relative_to_child name_child)
  have known': "assets fs r = (Inr (a0 # rest), r1)"
    using known as by simp
  have gen: "generate_description E fs r =
           (Inr \<lparr>title = slug r,
                 body = elem_insert body0 0
                          (Element ''div'' [(''class'', ''headline'')] None None [img]),
                 primary_image = Some img\<rparr>, r1)"
    unfolding generate_description_def
    by (simp add: parse known' sel' rel str_single
        make_headline_image_attrib img makeelement_def elem_append_def Let_def
        del: find.simps)
  show ?thesis
    using gen mem rel by (simp add: str_single)
qed

lemma generate_description_no_assets:
  assumes "plain_text (slug r)" and "assets fs r = (Inr [], r1)"
  shows "generate_description E fs r =
           (Inr \<lparr>title = slug r, body = heading_only (slug r), primary_image = None\<rparr>, r1)"
  using assms
  by (simp add: generate_description_def fromstring_template)

text \<open>
  C5 (amended). For a resource whose slug is plain character data: when its assets are
  cached from a listing of its directory, or are not cached yet and the directory can be
  listed, synthesis returns a document, whatever \<^verbatim>\<open>sluggify\<close> and \<^verbatim>\<open>is_wide\<close>
  answer, and when there is no asset (an empty directory among them) the body is the
  heading alone and there is no primary image; when its assets are not cached yet and
  listing the directory fails, synthesis raises that error.
\<close>

theorem synthesis_succeeds:
  assumes plain: "plain_text (slug r)"
  shows "((cached_assets r = None \<and> fs_listdir fs (path r) = Inr names)
            \<or> cached_assets r = Some (listed_assets (path r) names) \<longrightarrow>
          (\<exists>doc r'. generate_description E fs r = (Inr doc, r') \<and> title doc = slug r
             \<and> (listed_assets (path r) names = [] \<longrightarrow>
                  body doc = heading_only (slug r) \<and> primary_image doc = None)))
         \<and> (cached_assets r = None \<and> fs_listdir fs (path r) = Inl e \<longrightarrow>
              generate_description E fs r = (Inl e, r))"
proof (intro conjI impI)
  assume h: "(cached_assets r = None \<and> fs_listdir fs (path r) = Inr names)
              \<or> cached_assets r = Some (listed_assets (path r) names)"
  let ?r1 = "r\<lparr>cached_assets := Some (listed_assets (path r) names)\<rparr>"
  have known: "assets fs r = (Inr (listed_assets (path r) names), ?r1)"
    using h by (rule assets_known)
  show "\<exists>doc r'. generate_description E fs r = (Inr doc, r') \<and> title doc = slug r
             \<and> (listed_assets (path r) names = [] \<longrightarrow>
                  body doc = heading_only (slug r) \<and> primary_image doc = None)"
  proof (cases "listed_assets (path r) names = []")
    case True
    then have "assets fs r = (Inr [], ?r1)"
      using known by simp
    then show ?thesis
      using generate_description_no_assets [OF plain, of fs ?r1 E] True by simp
  next
    case False
    have parse: "fromstring (template (slug r)) = Inr (heading_only (slug r))"
      using plain by (rule fromstring_template)
    show ?thesis
      using generate_description_with_assets [OF known False parse refl refl, of E] False
      by simp
  qed
next
  assume "cached_assets r = None \<and> fs_listdir fs (path r) = Inl e"
  then have "assets fs r = (Inl e, r)"
    by (simp add: assets_failing)
  then show "generate_description E fs r = (Inl e, r)"
    using plain by (simp add: generate_description_def fromstring_template)
qed

lemma plain_gallery: "plain_text ''gallery''"
  by (simp add: ord_def)

theorem synthesis_succeeds_witness:
  "(\<exists>doc r'. generate_description sample_externals (dir_fs gallery []) gallery_piece = (Inr doc, r')
      \<and> title doc = ''gallery''
      \<and> body doc = heading_only ''gallery'' \<and> primary_image doc = None)
   \<and> generate_description sample_externals (dir_fs (Path [] [''elsewhere'']) []) gallery_piece
       = (Inl OSError, gallery_piece)"
proof -
  have plain: "plain_text (slug gallery_piece)"
    by (simp add: gallery_piece_fields ord_def)
  have fresh: "cached_assets gallery_piece = None"
    by (rule gallery_piece_fields)
  have listing: "fs_listdir (dir_fs gallery []) gallery = Inr []"
    by (simp add: dir_fs_tests)
  have failing: "fs_listdir (dir_fs (Path [] [''elsewhere'']) []) gallery = Inl OSError"
    by (simp add: dir_fs_tests gallery_def)
  show ?thesis
    using synthesis_succeeds [OF plain, of "dir_fs gallery []" "[]" sample_externals OSError]
      synthesis_succeeds [OF plain, of "dir_fs (Path [] [''elsewhere'']) []" "[]" sample_externals
        OSError]
    by (simp add: gallery_piece_fields listed_assets_def listing failing)
qed

text \<open>
  C5 as stated fails: the slug \<^verbatim>\<open>R&D\<close> makes the template ill-formed and
  \<^verbatim>\<open>ET.fromstring\<close> raises; a directory that cannot be listed makes \<^verbatim>\<open>assets\<close>
  raise.
\<close>

theorem synthesis_raises:
  "fst (generate_description sample_externals (dir_fs gallery [''cover.jpg''])
          (Resource sample_sluggify Piece gallery (Some ''R&D'') NoneRef None)) = Inl ParseError
   \<and> fst (generate_description sample_externals (dir_fs gallery [''cover.jpg''])
            (Resource sample_sluggify Piece (Path [] [''missing'']) None NoneRef None)) = Inl OSError"
proof -
  have "fromstring (template ''R&D'') = Inl ParseError"
    by (simp add: fromstring_def template_def name_start_char_def name_char_def ord_def emit_def)
  then have a: "fst (generate_description sample_externals (dir_fs gallery [''cover.jpg''])
          (Resource sample_sluggify Piece gallery (Some ''R&D'') NoneRef None)) = Inl ParseError"
    by (simp add: generate_description_def Resource_def Let_def)
  have stem_missing: "stem (Path [] [''missing'']) = ''missing''"
    by (simp add: stem_def name_def rfind_def)
  have plain: "plain_text ''missing''"
    by (simp add: ord_def)
  have b: "fst (generate_description sample_externals (dir_fs gallery [''cover.jpg''])
            (Resource sample_sluggify Piece (Path [] [''missing'']) None NoneRef None)) = Inl OSError"
    by (simp add: generate_description_def Resource_def Let_def stem_missing sample_sluggify_def
        fromstring_template [OF plain] assets_def assets_func_def iterdir_def dir_fs_tests
        gallery_def)
  show ?thesis using a b by simp
qed

text \<open>
  For a slug that is plain character data the headline is chosen and built as C4 says.
\<close>

lemma headline_for_plain_slug:
  assumes "plain_text (slug r)"
    and "(cached_assets r = None \<and> fs_listdir fs (path r) = Inr names)
         \<or> cached_assets r = Some (listed_assets (path r) names)"
    and "listed_assets (path r) names \<noteq> []"
    and "sel = (case find (\<lambda>p. sluggify E (stem p) = slug r) (listed_assets (path r) names) of
                  Some p \<Rightarrow> p
                | None \<Rightarrow> hd (listed_assets (path r) names))"
    and "img = Element ''img''
                 [(''src'', name sel), (''alt'', stem sel),
                  (''class'', if is_wide E sel then ''wide'' else ''tall'')] None None []"
  shows "generate_description E fs r =
           (Inr \<lparr>title = slug r,
                 body = elem_insert (heading_only (slug r)) 0
                          (Element ''div'' [(''class'', ''headline'')] None None [img]),
                 primary_image = Some img\<rparr>,
            r\<lparr>cached_assets := Some (listed_assets (path r) names)\<rparr>)
         \<and> sel \<in> set (listed_assets (path r) names)
         \<and> relative_to sel (path r) = Inr (Path [] [name sel])
         \<and> str (Path [] [name sel]) = name sel"
  using assets_known [OF assms(2)] assms(3) fromstring_template [OF assms(1)] assms(4,5)
  by (rule generate_description_with_assets)

section \<open>The description\<close>




lemma description_path_existing:
  "description_path (dir_fs gallery [''index.md'', ''cover.jpg'']) gallery_piece
     = (Inr (Some (make_child_relpath gallery ''index.md'')),
        gallery_piece\<lparr>cached_description_path := Some (Some (make_child_relpath gallery ''index.md''))\<rparr>)"
  by (simp add: description_path_def gallery_piece_fields description_path_func_def truediv_index
      dir_fs_tests gallery_not_too_long child_not_gallery child_eq_iff)



lemma fish_and_chips_fields:
  "path fish_and_chips = gallery" "slug fish_and_chips = ''Fish & Chips''"
  "cached_assets fish_and_chips = None" "cached_description_path fish_and_chips = None"
  "cached_description fish_and_chips = None"
  by (simp_all add: fish_and_chips_def Resource_def Let_def)

text \<open>
  C4, at a piece with the slug \<^verbatim>\<open>Fish & Chips\<close> whose directory holds
  \<^verbatim>\<open>cover.jpg\<close> and no description file: there is an asset and the description path is
  absent, but no headline is chosen and no image built, since the template, with the slug
  put in as markup, does not parse and \<^verbatim>\<open>ET.fromstring\<close> raises before the assets are
  looked at.
\<close>

theorem headline_lost_to_markup_in_slug:
  "fst (description_path (dir_fs gallery [''cover.jpg'']) fish_and_chips) = Inr None
   \<and> fst (assets (dir_fs gallery [''cover.jpg'']) fish_and_chips)
       = Inr [make_child_relpath gallery ''cover.jpg'']
   \<and> generate_description sample_externals (dir_fs gallery [''cover.jpg'']) fish_and_chips
       = (Inl ParseError, fish_and_chips)
   \<and> fst (description sample_externals (dir_fs gallery [''cover.jpg'']) fish_and_chips)
       = Inl ParseError"
proof -
  let ?fs = "dir_fs gallery [''cover.jpg'']"
  have t: "truediv gallery (''Fish & Chips'' @ ''.md'')
             = make_child_relpath gallery (''Fish & Chips'' @ ''.md'')"
    by (rule truediv_dot_md) simp
  have dp: "description_path ?fs fish_and_chips
              = (Inr None, fish_and_chips\<lparr>cached_description_path := Some None\<rparr>)"
    using t
    by (simp add: description_path_def fish_and_chips_fields description_path_func_def glob_def
        truediv_index dir_fs_tests gallery_not_too_long child_not_gallery child_eq_iff)
  have as: "fst (assets ?fs fish_and_chips) = Inr [make_child_relpath gallery ''cover.jpg'']"
    by (simp add: assets_def assets_func_def iterdir_def dir_fs_tests fish_and_chips_fields
        suffix_child rfind_def)
  have parse: "fromstring (template ''Fish & Chips'') = Inl ParseError"
    by (simp add: fromstring_def template_def name_start_char_def name_char_def ord_def emit_def)
  have gen: "\<And>r. slug r = ''Fish & Chips'' \<Longrightarrow>
               generate_description sample_externals ?fs r = (Inl ParseError, r)"
    by (simp add: generate_description_def parse)
  have d: "fst (description sample_externals ?fs fish_and_chips) = Inl ParseError"
    by (simp add: description_def description_func_def dp gen fish_and_chips_fields)
  show ?thesis
    using dp as gen [of fish_and_chips] d by (simp add: fish_and_chips_fields)
qed

text \<open>
  C6, at two resources with an empty directory and no description file: with the slug
  \<^verbatim>\<open>Q&amp;A\<close> the heading reads \<^verbatim>\<open>Q&A\<close>, which is not the slug, and with the slug
  \<^verbatim>\<open>Q&A\<close> no document is returned: the slug is put into the template as markup, not
  as text.
\<close>

theorem markup_in_slug_changes_heading:
  "fst (description sample_externals (dir_fs gallery [])
          (Resource sample_sluggify Piece gallery (Some ''Q&amp;A'') NoneRef None))
     = Inr \<lparr>title = ''Q&amp;A'', body = heading_only ''Q&A'', primary_image = None\<rparr>
   \<and> fst (description sample_externals (dir_fs gallery [])
            (Resource sample_sluggify Piece gallery (Some ''Q&A'') NoneRef None))
     = Inl ParseError"
proof -
  have p1: "fromstring (template ''Q&amp;A'') = Inr (heading_only ''Q&A'')"
    by (simp add: fromstring_def template_def name_start_char_def name_char_def ord_def emit_def
        predefined_def close_frame_def heading_only_def)
  have p2: "fromstring (template ''Q&A'') = Inl ParseError"
    by (simp add: fromstring_def template_def name_start_char_def name_char_def ord_def emit_def)
  have t1: "truediv gallery (''Q&amp;A'' @ ''.md'') = make_child_relpath gallery (''Q&amp;A'' @ ''.md'')"
    by (rule truediv_dot_md) simp
  have t2: "truediv gallery (''Q&A'' @ ''.md'') = make_child_relpath gallery (''Q&A'' @ ''.md'')"
    by (rule truediv_dot_md) simp
  have a: "fst (description sample_externals (dir_fs gallery [])
          (Resource sample_sluggify Piece gallery (Some ''Q&amp;A'') NoneRef None))
     = Inr \<lparr>title = ''Q&amp;A'', body = heading_only ''Q&A'', primary_image = None\<rparr>"
    using t1
    by (simp add: description_def description_func_def description_path_def
        description_path_func_def glob_def generate_description_def Resource_def Let_def
        truediv_index p1 assets_def assets_func_def iterdir_def dir_fs_tests
        gallery_not_too_long child_not_gallery)
  have b: "fst (description sample_externals (dir_fs gallery [])
            (Resource sample_sluggify Piece gallery (Some ''Q&A'') NoneRef None))
     = Inl ParseError"
    using t2
    by (simp add: description_def description_func_def description_path_def
        description_path_func_def glob_def generate_description_def Resource_def Let_def
        truediv_index p2 assets_def assets_func_def iterdir_def dir_fs_tests
        gallery_not_too_long child_not_gallery)
  show ?thesis using a b by simp
qed

text \<open>
  For a slug that is plain character data the heading is the slug.
\<close>

lemma description_of_bare_directory:
  assumes plain: "plain_text (slug r)"
    and fresh: "cached_description r = None" "cached_description_path r = None"
      "cached_assets r = None"
    and no_file: "description_path_func fs r = Inr None"
    and listing: "fs_listdir fs (path r) = Inr names"
    and no_assets: "listed_assets (path r) names = []"
  shows "fst (description E fs r) =
           Inr \<lparr>title = slug r, body = heading_only (slug r), primary_image = None\<rparr>"
proof -
  let ?r1 = "r\<lparr>cached_description_path := Some None\<rparr>"
  have dp: "description_path fs r = (Inr None, ?r1)"
    using fresh no_file by (simp add: description_path_def)
  have "assets fs ?r1 = (Inr [], ?r1\<lparr>cached_assets := Some []\<rparr>)"
    using assets_fresh [of ?r1 fs names] fresh listing no_assets by simp
  then have gen: "generate_description E fs ?r1 =
           (Inr \<lparr>title = slug r, body = heading_only (slug r), primary_image = None\<rparr>,
            ?r1\<lparr>cached_assets := Some []\<rparr>)"
    using generate_description_no_assets [of ?r1 fs _ E] plain by simp
  show ?thesis
    using fresh by (simp add: description_def description_func_def dp gen)
qed

section \<open>The explicit description path\<close>

lemma description_path_func_ignores_field:
  "description_path_func fs (r\<lparr>description_path_field := x\<rparr>) = description_path_func fs r"
  by (simp add: description_path_func_def cong: sum.case_cong bool.case_cong)

lemma description_path_field_update:
  "description_path fs (r\<lparr>description_path_field := x\<rparr>) =
     (fst (description_path fs r), (snd (description_path fs r))\<lparr>description_path_field := x\<rparr>)"
  by (simp add: description_path_def description_path_func_ignores_field
      split: option.splits sum.splits)

lemma assets_field_update:
  "assets fs (r\<lparr>description_path_field := x\<rparr>) =
     (fst (assets fs r), (snd (assets fs r))\<lparr>description_path_field := x\<rparr>)"
  by (simp add: assets_def assets_func_def split: option.splits sum.splits)

lemma generate_description_field_update:
  "generate_description E fs (r\<lparr>description_path_field := x\<rparr>) =
     (fst (generate_description E fs r),
      (snd (generate_description E fs r))\<lparr>description_path_field := x\<rparr>)"
  by (simp add: generate_description_def assets_field_update Let_def
      split: sum.splits prod.splits list.splits)

lemma description_func_field_update:
  "description_func E fs (r\<lparr>description_path_field := x\<rparr>) =
     (fst (description_func E fs r),
      (fst (snd (description_func E fs r)))\<lparr>description_path_field := x\<rparr>,
      snd (snd (description_func E fs r)))"
  by (simp add: description_func_def description_path_field_update
      generate_description_field_update debug_message_def
      split: prod.splits option.splits sum.splits)

lemma description_field_update:
  "description E fs (r\<lparr>description_path_field := x\<rparr>) =
     (fst (description E fs r),
      (fst (snd (description E fs r)))\<lparr>description_path_field := x\<rparr>,
      snd (snd (description E fs r)))"
  by (simp add: description_def description_func_field_update
      split: prod.splits option.splits sum.splits)

lemma split_append:
  "c \<notin> set b \<Longrightarrow> split c (a @ b) = butlast (split c a) @ [last (split c a) @ b]"
proof (induction a)
  case Nil
  then show ?case by (simp add: split_no_sep)
next
  case (Cons x a)
  obtain y ys where ys: "split c a = y # ys"
    using split_not_empty [of c a] by (cases "split c a") auto
  show ?case
    using Cons ys by (cases "ys = []") (auto simp: split_not_empty)
qed

lemma split_append_last:
  "c \<notin> set b \<Longrightarrow> last (split c (a @ b)) = last (split c a) @ b"
  by (simp add: split_append)

lemma last_filter_keep: "xs \<noteq> [] \<Longrightarrow> P (last xs) \<Longrightarrow> last (filter P xs) = last xs"
  by (induction xs) (auto simp: filter_empty_conv)

lemma splitroot_md: "\<exists>rel0. snd (splitroot (s @ ''.md'')) = rel0 @ ''.md''"
proof (cases "\<forall>x \<in> set s. x = CHR ''/''")
  case True
  then show ?thesis
    by (cases s) (auto simp: splitroot_def Let_def dropWhile_append)
next
  case False
  then show ?thesis
    by (cases s) (auto simp: splitroot_def Let_def dropWhile_append)
qed

lemma parse_parts_md:
  "\<exists>pre. path_parts (parse_parts (s @ ''.md'')) \<noteq> []
     \<and> last (path_parts (parse_parts (s @ ''.md''))) = pre @ ''.md''"
proof -
  obtain rel0 where rel: "snd (splitroot (s @ ''.md'')) = rel0 @ ''.md''"
    using splitroot_md by blast
  let ?xs = "split (CHR ''/'') (rel0 @ ''.md'')"
  have l: "last ?xs = last (split (CHR ''/'') rel0) @ ''.md''"
    by (rule split_append_last) simp
  have ne: "?xs \<noteq> []"
    by (rule split_not_empty)
  have keep: "last ?xs \<noteq> [] \<and> last ?xs \<noteq> ''.''"
    by (simp add: l)
  have parts: "path_parts (parse_parts (s @ ''.md'')) = filter (\<lambda>x. x \<noteq> [] \<and> x \<noteq> ''.'') ?xs"
    using rel by (cases "splitroot (s @ ''.md'')") (simp add: parse_parts_def)
  have "last ?xs \<in> set (filter (\<lambda>x. x \<noteq> [] \<and> x \<noteq> ''.'') ?xs)"
    using ne keep by simp
  then have ne': "filter (\<lambda>x. x \<noteq> [] \<and> x \<noteq> ''.'') ?xs \<noteq> []"
    by (auto simp: filter_empty_conv)
  have "last (filter (\<lambda>x. x \<noteq> [] \<and> x \<noteq> ''.'') ?xs) = last ?xs"
    using ne keep by (simp add: last_filter_keep)
  then show ?thesis
    using ne' l parts by auto
qed

lemma name_truediv_md: "\<exists>pre. name (truediv p (s @ ''.md'')) = pre @ ''.md''"
proof -
  obtain pre where pre: "path_parts (parse_parts (s @ ''.md'')) \<noteq> []"
    "last (path_parts (parse_parts (s @ ''.md''))) = pre @ ''.md''"
    using parse_parts_md by blast
  then show ?thesis
    by (auto simp: truediv_def Let_def name_if)
qed

lemma suffix_is_tail: "suffix p \<noteq> [] \<Longrightarrow> \<exists>pre. name p = pre @ suffix p"
proof -
  assume a: "suffix p \<noteq> []"
  then obtain i where "suffix p = drop i (name p)"
    by (auto simp: suffix_def split: option.splits if_splits)
  then have "name p = take i (name p) @ suffix p"
    by simp
  then show ?thesis by blast
qed

lemma md_name_not_html: "name q = pre @ ''.md'' \<Longrightarrow> suffix q \<noteq> ''.html''"
proof
  assume n: "name q = pre @ ''.md''" and s: "suffix q = ''.html''"
  then obtain pre' where "name q = pre' @ ''.html''"
    using suffix_is_tail [of q] by auto
  then have "last (pre @ ''.md'') = last (pre' @ ''.html'')"
    using n by simp
  then show False by simp
qed

lemma description_path_func_not_html:
  "description_path_func fs r = Inr (Some q) \<Longrightarrow> suffix q \<noteq> ''.html''"
proof -
  assume a: "description_path_func fs r = Inr (Some q)"
  then consider "q = truediv (path r) (''index'' @ ''.md'')"
    | "q = truediv (path r) (slug r @ ''.md'')"
    | "q = make_child_relpath (path r) ''.md''"
    by (auto simp: description_path_func_def glob_def split: if_splits sum.splits bool.splits)
  then show ?thesis
  proof cases
    case 1
    then show ?thesis
      using name_truediv_md [of "path r" "''index''"] md_name_not_html by blast
  next
    case 2
    then show ?thesis
      using name_truediv_md [of "path r" "slug r"] md_name_not_html by blast
  next
    case 3
    then have "name q = [] @ ''.md''"
      by (simp add: name_child)
    then show ?thesis
      by (rule md_name_not_html)
  qed
qed

lemma Resource_field_update:
  "Resource f k d s fa ia = (Resource f k d s fa' ia')\<lparr>description_path_field :=
      description_path_field (Resource f k d s fa ia)\<rparr>"
  by (simp add: Resource_def Let_def)

text \<open>
  C1 (amended). \<^verbatim>\<open>description_path\<close> and \<^verbatim>\<open>description\<close> do not depend on the explicit
  description path: changing the field, or building the resource with other values for
  it, changes neither. On the first access \<^verbatim>\<open>description_path\<close> is one of
  \<^verbatim>\<open>path/index.md\<close>, \<^verbatim>\<open>path/{slug}.md\<close>, the child named \<^verbatim>\<open>.md\<close>, or absent; so it
  is never an explicit path with the extension \<^verbatim>\<open>.html\<close>, and it is the explicit
  path only where that is the file the search finds.
\<close>

theorem description_path_ignores_explicit:
  "fst (description_path fs (r\<lparr>description_path_field := x\<rparr>)) = fst (description_path fs r)
   \<and> fst (description E fs (r\<lparr>description_path_field := x\<rparr>)) = fst (description E fs r)
   \<and> snd (snd (description E fs (r\<lparr>description_path_field := x\<rparr>)))
       = snd (snd (description E fs r))
   \<and> fst (description_path fs (Resource f k d s fa ia))
       = fst (description_path fs (Resource f k d s fa' ia'))
   \<and> fst (description E fs (Resource f k d s fa ia))
       = fst (description E fs (Resource f k d s fa' ia'))
   \<and> (cached_description_path r = None \<longrightarrow>
        fst (description_path fs r) \<in>
          {Inr (Some (truediv (path r) ''index.md'')),
           Inr (Some (truediv (path r) (slug r @ ''.md''))),
           Inr (Some (make_child_relpath (path r) ''.md'')), Inr None}
        \<or> (\<exists>e. fst (description_path fs r) = Inl e))
   \<and> (suffix p = ''.html'' \<longrightarrow>
        fst (description_path fs (from_path f k p)) \<noteq> Inr (Some p))"
proof -
  have a: "fst (description_path fs (Resource f k d s fa ia))
             = fst (description_path fs (Resource f k d s fa' ia'))"
    by (subst Resource_field_update [of f k d s fa ia fa' ia'])
      (simp only: description_path_field_update fst_conv)
  have b: "fst (description E fs (Resource f k d s fa ia))
             = fst (description E fs (Resource f k d s fa' ia'))"
    by (subst Resource_field_update [of f k d s fa ia fa' ia'])
      (simp only: description_field_update fst_conv)
  have c: "cached_description_path r = None \<longrightarrow>
        fst (description_path fs r) \<in>
          {Inr (Some (truediv (path r) ''index.md'')),
           Inr (Some (truediv (path r) (slug r @ ''.md''))),
           Inr (Some (make_child_relpath (path r) ''.md'')), Inr None}
        \<or> (\<exists>e. fst (description_path fs r) = Inl e)"
    by (auto simp: description_path_fresh description_path_func_def glob_def
        split: sum.splits bool.splits if_splits)
  have d: "suffix p = ''.html'' \<longrightarrow>
             fst (description_path fs (from_path f k p)) \<noteq> Inr (Some p)"
  proof
    assume h: "suffix p = ''.html''"
    have "cached_description_path (from_path f k p) = None"
      by (simp add: from_path_def Resource_def Let_def)
    then have "fst (description_path fs (from_path f k p))
                 = description_path_func fs (from_path f k p)"
      by (simp add: description_path_fresh)
    then show "fst (description_path fs (from_path f k p)) \<noteq> Inr (Some p)"
      using description_path_func_not_html [of fs "from_path f k p" p] h by auto
  qed
  show ?thesis
    using a b c d
    by (simp add: description_path_field_update description_field_update)
qed

theorem description_path_ignores_explicit_witness:
  "suffix (make_child_relpath gallery ''page.html'') = ''.html''
   \<and> description_path_field (from_path sample_sluggify Piece (make_child_relpath gallery ''page.html''))
       = PathRef (make_child_relpath gallery ''page.html'')
   \<and> cached_description_path (from_path sample_sluggify Piece (make_child_relpath gallery ''page.html''))
       = None
   \<and> fst (description_path (dir_fs gallery [''page.html''])
            (from_path sample_sluggify Piece (make_child_relpath gallery ''page.html'')))
       \<noteq> Inr (Some (make_child_relpath gallery ''page.html''))
   \<and> fst (description_path (dir_fs gallery [''page.html''])
            (from_path sample_sluggify Piece (make_child_relpath gallery ''page.html'')))
       = Inr None"
proof -
  let ?p = "make_child_relpath gallery ''page.html''"
  have html: "suffix ?p = ''.html''"
    by (simp add: suffix_child rfind_def)
  have r: "from_path sample_sluggify Piece ?p = gallery_piece\<lparr>description_path_field := PathRef ?p\<rparr>"
    by (simp add: from_path_def html parent_child gallery_piece_def Resource_def Let_def)
  have description_path_page:
    "fst (description_path (dir_fs gallery [''page.html'']) gallery_piece) = Inr None"
    by (simp add: description_path_fresh gallery_piece_fields description_path_func_def glob_def
        truediv_index truediv_gallery_md dir_fs_tests gallery_not_too_long child_not_gallery
        child_eq_iff)
  show ?thesis
    using description_path_ignores_explicit [where fs = "dir_fs gallery [''page.html'']"
        and r = "from_path sample_sluggify Piece ?p" and p = ?p and f = sample_sluggify
        and k = Piece]
    by (simp add: html r gallery_piece_fields truediv_index truediv_gallery_md
        description_path_field_update description_path_page)
qed

text \<open>
  C1 as stated fails in its "never equals": for \<^verbatim>\<open>from_path\<close> of an existing
  \<^verbatim>\<open>index.md\<close> the search finds the very file that was given.
\<close>

theorem description_path_equals_explicit:
  "description_path_field (from_path sample_sluggify Piece (make_child_relpath gallery ''index.md''))
     = PathRef (make_child_relpath gallery ''index.md'')
   \<and> fst (description_path (dir_fs gallery [''index.md'', ''cover.jpg''])
            (from_path sample_sluggify Piece (make_child_relpath gallery ''index.md'')))
     = Inr (Some (make_child_relpath gallery ''index.md''))"
proof -
  let ?p = "make_child_relpath gallery ''index.md''"
  have r: "from_path sample_sluggify Piece ?p = gallery_piece\<lparr>description_path_field := PathRef ?p\<rparr>"
    by (simp add: from_path_def suffix_gallery_index parent_child gallery_piece_def Resource_def
        Let_def)
  show ?thesis
    by (simp add: r description_path_field_update description_path_existing)
qed

end
